theory Spec2Isabelle
  imports Complex_Main "HOL-Library.Sublist"
begin

section \<open>The physics list of restG4 (src/src/PhysicsList.cxx)\<close>

text \<open>
  The class \<open>PhysicsList\<close> reads a \<open>TRestGeant4PhysicsLists\<close> object (the parsed
  configuration, a class of the REST library) and drives the Geant4 engine. Both are
  outside the repository. The configuration object is modelled by the values its
  accessors return; every call into the engine and every line written to an output
  stream is recorded, in program order, as an \<open>event\<close>. Floating-point quantities
  are idealised as rationals: the properties below are about which value is handed to
  which call, never about rounding.
\<close>

subsection \<open>Units (CLHEP system of units: mm, MeV and ns are 1)\<close>

definition mm :: rat where "mm = 1"
definition keV :: rat where "keV = 1 / 1000"
definition nanosecond :: rat where "nanosecond = 1"
definition second :: rat where "second = 1000000000"

subsection \<open>The configuration object, as seen through its accessors\<close>

text \<open>
  \<open>TRestStringOutput::REST_Verbose_Level\<close>: the levels in increasing order. The code
  only compares levels with \<open>>=\<close>.
\<close>

datatype REST_Verbose_Level = REST_Silent | REST_Essential | REST_Info | REST_Debug | REST_Extreme

fun level :: "REST_Verbose_Level \<Rightarrow> nat" where
  "level REST_Silent = 0"
| "level REST_Essential = 1"
| "level REST_Info = 2"
| "level REST_Debug = 3"
| "level REST_Extreme = 4"

text \<open>
  One field per accessor that PhysicsList.cxx calls. \<open>FindPhysicsList name\<close> is the
  library's \<open>Int_t\<close> answer; every selection test of the source reads it as
  "found" when it is \<open>>= 0\<close>.
\<close>

record TRestGeant4PhysicsLists =
  FindPhysicsList :: "string \<Rightarrow> int"
  GetPhysicsListOptionValue :: "string \<Rightarrow> string \<Rightarrow> string \<Rightarrow> string"
  GetVerboseLevel :: REST_Verbose_Level
  GetMinimumEnergyProductionCuts :: rat
  GetMaximumEnergyProductionCuts :: rat
  GetCutForGamma :: rat
  GetCutForElectron :: rat
  GetCutForPositron :: rat
  GetCutForMuon :: rat
  GetCutForNeutron :: rat
  GetIonStepList :: "string list"

text \<open>The default third argument of \<open>GetPhysicsListOptionValue\<close> in the library's header.\<close>

definition NotDefined :: string where "NotDefined = ''NotDefined''"

subsection \<open>Engine objects and the event trace\<close>

text \<open>The physics constructor classes that the source instantiates.\<close>

datatype G4VPhysicsConstructor =
    G4DecayPhysics
  | G4RadioactiveDecayPhysics
  | G4EmLivermorePhysics
  | G4EmPenelopePhysics
  | G4EmStandardPhysics_option3
  | G4EmStandardPhysics_option4
  | G4HadronPhysicsQGSP_BIC_HP
  | G4IonBinaryCascadePhysics
  | G4HadronElasticPhysicsHP
  | G4NeutronTrackingCut
  | G4EmExtraPhysics

text \<open>A particle definition: one met by the particle iterator, or an ion from the ion table.\<close>

datatype G4ParticleDefinition = Particle string | Ion int int int

datatype event =
    G4UnitDefinition string string string rat
  | G4LossTableManager_Instance
  | SetEnergyRange rat rat
  | New G4VPhysicsConstructor
  | G4cout string
  | Cout string
  | Cerr string
  | RESTWarning string
  | GeantinoDefinition
  | ConstructParticleOf G4VPhysicsConstructor
  | AddTransportation
  | ConstructProcessOf G4VPhysicsConstructor
  | EmConfig_AddModels
  | ApplyCommand string
  | New_G4RadioactiveDecay
  | SetThresholdForVeryLongDecayTime rat
  | SetICM bool
  | SetARM bool
  | AddDiscreteProcess G4ParticleDefinition string
  | SetCutsWithDefault rat
  | SetCutValue rat string

text \<open>A call either returns or ends the process through \<open>exit(status)\<close>.\<close>

datatype 'a outcome = Exit int | Return 'a

subsection \<open>The object state (include/PhysicsList.h)\<close>

record PhysicsList =
  fEmPhysicsList :: "G4VPhysicsConstructor option"
  fEmPhysicsListName :: string
  fDecPhysicsList :: "G4VPhysicsConstructor option"
  fRadDecPhysicsList :: "G4VPhysicsConstructor option"
  fHadronPhys :: "G4VPhysicsConstructor list"
  fRestPhysicsLists :: TRestGeant4PhysicsLists
  defaultCutValue :: rat

subsection \<open>Printing integers, as the output streams do\<close>

definition digit :: "nat \<Rightarrow> char" where
  "digit d = (''0123456789'' ! d)"

function string_of_nat :: "nat \<Rightarrow> string" where
  "string_of_nat n = (if n < 10 then [digit n] else string_of_nat (n div 10) @ [digit (n mod 10)])"
  by pat_completeness auto
termination
  by (relation "measure id") auto

declare string_of_nat.simps [simp del]

definition string_of_int :: "int \<Rightarrow> string" where
  "string_of_int i = (if i < 0 then CHR ''-'' # string_of_nat (nat (- i)) else string_of_nat (nat i))"

subsection \<open>PhysicsList::InitializePhysicsLists\<close>

text \<open>
  The two optional single-slot modules: the slot is filled when the name is found,
  otherwise a line is printed at verbosity \<open>REST_Debug\<close> or higher.
\<close>

definition selectDecay :: "PhysicsList \<times> event list \<Rightarrow> PhysicsList \<times> event list" where
  "selectDecay s = (case s of (this, tr) \<Rightarrow>
     if FindPhysicsList (fRestPhysicsLists this) ''G4DecayPhysics'' \<ge> 0
     then (this\<lparr>fDecPhysicsList := Some G4DecayPhysics\<rparr>, tr @ [New G4DecayPhysics])
     else if level (GetVerboseLevel (fRestPhysicsLists this)) \<ge> level REST_Debug
     then (this, tr @ [G4cout ''restG4. PhysicsList. G4DecayPhysics is not enabled!!''])
     else (this, tr))"

definition selectRadDecay :: "PhysicsList \<times> event list \<Rightarrow> PhysicsList \<times> event list" where
  "selectRadDecay s = (case s of (this, tr) \<Rightarrow>
     if FindPhysicsList (fRestPhysicsLists this) ''G4RadioactiveDecayPhysics'' \<ge> 0
     then (this\<lparr>fRadDecPhysicsList := Some G4RadioactiveDecayPhysics\<rparr>,
           tr @ [New G4RadioactiveDecayPhysics])
     else if level (GetVerboseLevel (fRestPhysicsLists this)) \<ge> level REST_Debug
     then (this, tr @ [G4cout ''restG4. PhysicsList. G4RadioactiveDecayPhysics is not enabled!!''])
     else (this, tr))"

text \<open>
  The source repeats one block four times, once per electromagnetic name: the first
  name found fills the slot, every name found increments \<open>emCounter\<close>.
\<close>

definition selectEm ::
  "string \<Rightarrow> G4VPhysicsConstructor \<Rightarrow> PhysicsList \<times> int \<times> event list
     \<Rightarrow> PhysicsList \<times> int \<times> event list" where
  "selectEm emPhysicsListName ctor s = (case s of (this, emCounter, tr) \<Rightarrow>
     if FindPhysicsList (fRestPhysicsLists this) emPhysicsListName \<ge> 0
     then (if fEmPhysicsList this = None
           then (this\<lparr>fEmPhysicsList := Some ctor, fEmPhysicsListName := emPhysicsListName\<rparr>,
                 emCounter + 1, tr @ [New ctor])
           else (this, emCounter + 1, tr))
     else s)"

definition selectHadron ::
  "string \<Rightarrow> G4VPhysicsConstructor \<Rightarrow> PhysicsList \<times> event list \<Rightarrow> PhysicsList \<times> event list" where
  "selectHadron name ctor s = (case s of (this, tr) \<Rightarrow>
     if FindPhysicsList (fRestPhysicsLists this) name \<ge> 0
     then (this\<lparr>fHadronPhys := fHadronPhys this @ [ctor]\<rparr>, tr @ [New ctor])
     else s)"

definition noEmWarning :: string where
  "noEmWarning = ''PhysicsList: No EM physics list has been enabled''"

definition moreThanOneEm :: string where
  "moreThanOneEm = ''PhysicsList: More than 1 EM PhysicsList enabled.''"

definition selectAllEm :: "PhysicsList \<times> event list \<Rightarrow> PhysicsList \<times> int \<times> event list" where
  "selectAllEm s = (case s of (this, tr) \<Rightarrow>
     selectEm ''G4EmStandardPhysics_option4'' G4EmStandardPhysics_option4
       (selectEm ''G4EmStandardPhysics_option3'' G4EmStandardPhysics_option3
         (selectEm ''G4EmPenelopePhysics'' G4EmPenelopePhysics
           (selectEm ''G4EmLivermorePhysics'' G4EmLivermorePhysics (this, 0, tr)))))"

definition selectAllHadron :: "PhysicsList \<times> event list \<Rightarrow> PhysicsList \<times> event list" where
  "selectAllHadron s =
     selectHadron ''G4EmExtraPhysics'' G4EmExtraPhysics
       (selectHadron ''G4NeutronTrackingCut'' G4NeutronTrackingCut
         (selectHadron ''G4HadronElasticPhysicsHP'' G4HadronElasticPhysicsHP
           (selectHadron ''G4IonBinaryCascadePhysics'' G4IonBinaryCascadePhysics
             (selectHadron ''G4HadronPhysicsQGSP_BIC_HP'' G4HadronPhysicsQGSP_BIC_HP s))))"

definition InitializePhysicsLists ::
  "PhysicsList \<times> event list \<Rightarrow> PhysicsList outcome \<times> event list" where
  "InitializePhysicsLists s =
     (case selectAllEm (selectRadDecay (selectDecay s)) of (this, emCounter, tr) \<Rightarrow>
        let tr1 = (if level (GetVerboseLevel (fRestPhysicsLists this)) \<ge> level REST_Essential
                      \<and> emCounter = 0
                   then tr @ [RESTWarning noEmWarning] else tr)
        in if emCounter > 1 then (Exit 1, tr1 @ [Cerr moreThanOneEm])
           else (case selectAllHadron (this, tr1) of (this', tr2) \<Rightarrow>
                   (Return this',
                    tr2 @ [G4cout (''Number of hadronic physics lists added ''
                                   @ string_of_nat (length (fHadronPhys this')))])))"

subsection \<open>The constructor\<close>

definition minute :: rat where "minute = 60 * second"
definition hour :: rat where "hour = 60 * minute"
definition day :: rat where "day = 24 * hour"
definition year :: rat where "year = 365 * day"

text \<open>The object before the constructor body runs: the member initialisers of the header.\<close>

definition newPhysicsList :: "TRestGeant4PhysicsLists \<Rightarrow> PhysicsList" where
  "newPhysicsList physicsLists =
     \<lparr> fEmPhysicsList = None, fEmPhysicsListName = [], fDecPhysicsList = None,
       fRadDecPhysicsList = None, fHadronPhys = [], fRestPhysicsLists = physicsLists,
       defaultCutValue = 1 / 10 * mm \<rparr>"

definition PhysicsList_ctor :: "TRestGeant4PhysicsLists \<Rightarrow> PhysicsList outcome \<times> event list" where
  "PhysicsList_ctor physicsLists =
     InitializePhysicsLists
       (newPhysicsList physicsLists,
        [G4UnitDefinition ''minute'' ''min'' ''Time'' minute,
         G4UnitDefinition ''hour'' ''h'' ''Time'' hour,
         G4UnitDefinition ''day'' ''d'' ''Time'' day,
         G4UnitDefinition ''year'' ''y'' ''Time'' year,
         G4LossTableManager_Instance,
         SetEnergyRange (GetMinimumEnergyProductionCuts physicsLists * keV)
                        (GetMaximumEnergyProductionCuts physicsLists * keV)])"

subsection \<open>What the class calls outside the repository, besides the configuration\<close>

text \<open>
  \<open>StringToBool\<close> is a helper of the REST library; \<open>theParticleIterator\<close> is the
  sequence of particle names that the engine's particle iterator yields;
  \<open>GetIonName Z A lvl\<close> is the ion table's name for an ion. All three are parameters.
\<close>

record externals =
  StringToBool :: "string \<Rightarrow> bool"
  theParticleIterator :: "string list"
  GetIonName :: "int \<Rightarrow> int \<Rightarrow> int \<Rightarrow> string"

subsection \<open>PhysicsList::ConstructParticle\<close>

definition ConstructParticle :: "PhysicsList \<Rightarrow> event list \<Rightarrow> event list" where
  "ConstructParticle this tr0 =
     (let tr1 = tr0 @ [GeantinoDefinition];
          tr2 = (case fDecPhysicsList this of Some m \<Rightarrow> tr1 @ [ConstructParticleOf m] | None \<Rightarrow> tr1);
          tr3 = (case fEmPhysicsList this of Some m \<Rightarrow> tr2 @ [ConstructParticleOf m] | None \<Rightarrow> tr2);
          tr4 = (case fRadDecPhysicsList this of Some m \<Rightarrow> tr3 @ [ConstructParticleOf m] | None \<Rightarrow> tr3)
      in foldl (\<lambda>tr hadronicPhysicsList. tr @ [ConstructParticleOf hadronicPhysicsList])
           tr4 (fHadronPhys this))"

subsection \<open>PhysicsList::ConstructProcess\<close>

definition boolString :: "bool \<Rightarrow> string" where
  "boolString b = (if b then ''true'' else ''false'')"

text \<open>One of the three option blocks of the electromagnetic branch (pixe, fluo, auger).\<close>

definition emOption :: "externals \<Rightarrow> PhysicsList \<Rightarrow> string \<Rightarrow> string \<Rightarrow> event list \<Rightarrow> event list" where
  "emOption ext this opt dflt tr =
     (let boolEmOption = StringToBool ext
            (GetPhysicsListOptionValue (fRestPhysicsLists this) (fEmPhysicsListName this) opt dflt);
          stringEmOption = boolString boolEmOption
      in tr @ [G4cout (''Setting EM option '' @ [CHR 0x27] @ ''/process/em/'' @ opt @ [CHR 0x27]
                       @ '' to '' @ [CHR 0x27] @ stringEmOption @ [CHR 0x27]
                       @ '' for physics list '' @ [CHR 0x27] @ fEmPhysicsListName this @ [CHR 0x27]),
               ApplyCommand (''/process/em/'' @ opt @ '' '' @ stringEmOption)])"

definition constructEm :: "externals \<Rightarrow> PhysicsList \<Rightarrow> event list \<Rightarrow> event list" where
  "constructEm ext this tr =
     (case fEmPhysicsList this of
        None \<Rightarrow> tr
      | Some m \<Rightarrow>
          emOption ext this ''auger'' ''true''
            (emOption ext this ''fluo'' ''true''
              (emOption ext this ''pixe'' ''false''
                (tr @ [ConstructProcessOf m, EmConfig_AddModels,
                       ApplyCommand ''/process/em/fluo true'',
                       ApplyCommand ''/process/em/auger true'',
                       ApplyCommand ''/process/em/pixe true'']))))"

text \<open>
  The block guarded by \<open>if (fRestPhysicsLists->FindPhysicsList("G4RadioactiveDecay"))\<close>:
  the \<open>Int_t\<close> is used as the condition, so the block runs when the answer is not 0.
  The threshold is set through \<open>SetHLThreshold\<close> or \<open>SetThresholdForVeryLongDecayTime\<close>,
  depending on the Geant4 version; the event carries the second name for both.
\<close>

definition radioactiveFlag ::
  "PhysicsList \<Rightarrow> string \<Rightarrow> (bool \<Rightarrow> event) \<Rightarrow> event list \<Rightarrow> event list" where
  "radioactiveFlag this opt setter tr =
     (let cfg = fRestPhysicsLists this in
      if GetPhysicsListOptionValue cfg ''G4RadioactiveDecay'' opt NotDefined = ''true''
      then tr @ [setter True]
      else if GetPhysicsListOptionValue cfg ''G4RadioactiveDecay'' opt NotDefined = ''false''
      then tr @ [setter False]
      else if level (GetVerboseLevel cfg) \<ge> level REST_Essential
      then tr @ [RESTWarning (''PhysicsList '' @ [CHR 0x27] @ ''G4RadioactiveDecay'' @ [CHR 0x27]
                              @ '' option '' @ [CHR 0x27] @ opt @ [CHR 0x27] @ '' not defined'')]
      else tr)"

definition radioactiveDecayBlock :: "PhysicsList \<Rightarrow> event list \<Rightarrow> event list" where
  "radioactiveDecayBlock this tr =
     (if FindPhysicsList (fRestPhysicsLists this) ''G4RadioactiveDecay'' \<noteq> 0
      then radioactiveFlag this ''ARM'' SetARM
             (radioactiveFlag this ''ICM'' SetICM
               (tr @ [New_G4RadioactiveDecay, SetThresholdForVeryLongDecayTime nanosecond]))
      else tr)"

text \<open>The body of the loop over the particle iterator.\<close>

definition stepLimiterFor :: "string \<Rightarrow> event list" where
  "stepLimiterFor particleName =
     (if particleName = ''e-'' then [AddDiscreteProcess (Particle particleName) ''e-Step'']
      else if particleName = ''e+'' then [AddDiscreteProcess (Particle particleName) ''e+Step'']
      else [])
     @ (if particleName = ''mu-'' then [AddDiscreteProcess (Particle particleName) ''mu-Step'']
        else if particleName = ''mu+'' then [AddDiscreteProcess (Particle particleName) ''mu+Step'']
        else [])"

text \<open>The body of the innermost ion loop, for one \<open>(Z, A)\<close> and one entry of the ion step list.\<close>

definition ionStepFor :: "externals \<Rightarrow> int \<Rightarrow> int \<Rightarrow> string \<Rightarrow> event list" where
  "ionStepFor ext Z A entry =
     (if entry = GetIonName ext Z A 0
      then [Cout (''Found ion: '' @ GetIonName ext Z A 0 @ '' Z '' @ string_of_int Z
                    @ '' A '' @ string_of_int A),
            AddDiscreteProcess (Ion Z A 0) ''ionStep'']
      else [])"

definition ionStepLoop :: "externals \<Rightarrow> string list \<Rightarrow> event list" where
  "ionStepLoop ext ionStepList =
     concat (map (\<lambda>Z. concat (map (\<lambda>A. concat (map (ionStepFor ext Z A) ionStepList))
                                   [2 * Z..3 * Z]))
                 [1..40])"

definition ConstructProcess :: "externals \<Rightarrow> PhysicsList \<Rightarrow> event list \<Rightarrow> event list" where
  "ConstructProcess ext this tr0 =
     (let tr1 = tr0 @ [AddTransportation];
          tr2 = constructEm ext this tr1;
          tr3 = (case fDecPhysicsList this of Some m \<Rightarrow> tr2 @ [ConstructProcessOf m] | None \<Rightarrow> tr2);
          tr4 = (case fRadDecPhysicsList this of Some m \<Rightarrow> tr3 @ [ConstructProcessOf m] | None \<Rightarrow> tr3);
          tr5 = foldl (\<lambda>tr hadronicPhysicsList. tr @ [ConstructProcessOf hadronicPhysicsList])
                  tr4 (fHadronPhys this);
          tr6 = radioactiveDecayBlock this tr5;
          tr7 = tr6 @ concat (map stepLimiterFor (theParticleIterator ext))
      in tr7 @ ionStepLoop ext (GetIonStepList (fRestPhysicsLists this)))"

subsection \<open>PhysicsList::SetCuts\<close>

definition SetCuts :: "PhysicsList \<Rightarrow> event list \<Rightarrow> event list" where
  "SetCuts this tr =
     (let cfg = fRestPhysicsLists this in
      tr @ [SetCutsWithDefault (defaultCutValue this),
            SetCutValue (GetCutForGamma cfg * mm) ''gamma'',
            SetCutValue (GetCutForElectron cfg * mm) ''e-'',
            SetCutValue (GetCutForPositron cfg * mm) ''e+'',
            SetCutValue (GetCutForMuon cfg * mm) ''mu+'',
            SetCutValue (GetCutForMuon cfg * mm) ''mu-'',
            SetCutValue (GetCutForNeutron cfg * mm) ''neutron''])"

subsection \<open>The run, as Application.cxx starts it\<close>

text \<open>
  \<open>Application::Run\<close> builds the object with \<open>new PhysicsList(...)\<close> and hands it to
  the run manager, whose initialisation calls the three overridden methods in the order
  \<open>ConstructParticle\<close>, \<open>ConstructProcess\<close>, \<open>SetCuts\<close>. An \<open>exit\<close> inside the
  constructor ends the process before any of them.
\<close>

definition Initialize ::
  "externals \<Rightarrow> TRestGeant4PhysicsLists \<Rightarrow> PhysicsList outcome \<times> event list" where
  "Initialize ext physicsLists =
     (case PhysicsList_ctor physicsLists of
        (Exit status, tr) \<Rightarrow> (Exit status, tr)
      | (Return this, tr) \<Rightarrow>
          (Return this, SetCuts this (ConstructProcess ext this (ConstructParticle this tr))))"

subsection \<open>Reading a trace\<close>

fun returns :: "'a outcome \<Rightarrow> bool" where
  "returns (Return x) = True"
| "returns (Exit status) = False"

text \<open>The lines written to the error stream.\<close>

fun diagnosticOf :: "event \<Rightarrow> string list" where
  "diagnosticOf (Cerr m) = [m]"
| "diagnosticOf e = []"

definition diagnostics :: "event list \<Rightarrow> string list" where
  "diagnostics tr = concat (map diagnosticOf tr)"

text \<open>The warnings sent to \<open>RESTWarning\<close>.\<close>

fun warningOf :: "event \<Rightarrow> string list" where
  "warningOf (RESTWarning m) = [m]"
| "warningOf e = []"

definition warnings :: "event list \<Rightarrow> string list" where
  "warnings tr = concat (map warningOf tr)"

text \<open>The step limiters attached, in order: the particle and the limiter's name.\<close>

fun limiterOf :: "event \<Rightarrow> (G4ParticleDefinition \<times> string) list" where
  "limiterOf (AddDiscreteProcess p tag) = [(p, tag)]"
| "limiterOf e = []"

definition stepLimiters :: "event list \<Rightarrow> (G4ParticleDefinition \<times> string) list" where
  "stepLimiters tr = concat (map limiterOf tr)"

text \<open>Events of the two construction phases and of the cut assignment.\<close>

fun isAssembly :: "event \<Rightarrow> bool" where
  "isAssembly GeantinoDefinition = True"
| "isAssembly (ConstructParticleOf m) = True"
| "isAssembly AddTransportation = True"
| "isAssembly (ConstructProcessOf m) = True"
| "isAssembly EmConfig_AddModels = True"
| "isAssembly (ApplyCommand c) = True"
| "isAssembly New_G4RadioactiveDecay = True"
| "isAssembly (SetThresholdForVeryLongDecayTime t) = True"
| "isAssembly (SetICM b) = True"
| "isAssembly (SetARM b) = True"
| "isAssembly (AddDiscreteProcess p tag) = True"
| "isAssembly (SetCutsWithDefault d) = True"
| "isAssembly (SetCutValue v n) = True"
| "isAssembly e = False"

fun isSetEnergyRange :: "event \<Rightarrow> bool" where
  "isSetEnergyRange (SetEnergyRange lo hi) = True"
| "isSetEnergyRange e = False"

text \<open>The calls on the radioactive-decay process object.\<close>

fun isRadioactiveDecayCall :: "event \<Rightarrow> bool" where
  "isRadioactiveDecayCall New_G4RadioactiveDecay = True"
| "isRadioactiveDecayCall (SetThresholdForVeryLongDecayTime t) = True"
| "isRadioactiveDecayCall (SetICM b) = True"
| "isRadioactiveDecayCall (SetARM b) = True"
| "isRadioactiveDecayCall e = False"

text \<open>The commands sent to the UI manager.\<close>

fun commandOf :: "event \<Rightarrow> string list" where
  "commandOf (ApplyCommand c) = [c]"
| "commandOf e = []"

definition commands :: "event list \<Rightarrow> string list" where
  "commands tr = concat (map commandOf tr)"



subsection \<open>Concrete configurations\<close>

text \<open>
  Modelled from the spec: the configuration source, an ordered list of declared modules
  \<open>(name, options)\<close>. A declared name is found at its position in the declaration (from 0),
  a name that is not declared is "not found" and answered with \<open>-1\<close>; an option that is
  absent yields the default value passed by the caller.
\<close>

fun findIndex :: "string list \<Rightarrow> string \<Rightarrow> int" where
  "findIndex [] x = - 1"
| "findIndex (y # ys) x =
     (if y = x then 0 else (let r = findIndex ys x in if r < 0 then - 1 else r + 1))"

definition optionValue ::
  "(string \<times> (string \<times> string) list) list \<Rightarrow> string \<Rightarrow> string \<Rightarrow> string \<Rightarrow> string" where
  "optionValue modules physicsListName opt dflt =
     (case map_of modules physicsListName of
        None \<Rightarrow> dflt
      | Some opts \<Rightarrow> (case map_of opts opt of None \<Rightarrow> dflt | Some v \<Rightarrow> v))"

text \<open>
  The remaining values are those of the example configuration
  (src/examples/v2.1.7/pandaXIII/biasing/externalU238.rml): all cuts 1 mm, the energy
  window from 1 keV to 1 GeV.
\<close>

definition configSource ::
  "(string \<times> (string \<times> string) list) list \<Rightarrow> REST_Verbose_Level \<Rightarrow> string list
     \<Rightarrow> TRestGeant4PhysicsLists" where
  "configSource modules verbosity ionSteps =
     \<lparr> FindPhysicsList = findIndex (map fst modules),
       GetPhysicsListOptionValue = optionValue modules,
       GetVerboseLevel = verbosity,
       GetMinimumEnergyProductionCuts = 1,
       GetMaximumEnergyProductionCuts = 1000000,
       GetCutForGamma = 1, GetCutForElectron = 1, GetCutForPositron = 1,
       GetCutForMuon = 1, GetCutForNeutron = 1,
       GetIonStepList = ionSteps \<rparr>"

text \<open>
  A concrete engine for the examples: \<open>StringToBool\<close> accepts "true" and "on" in any
  letter case; ions are named by the element symbol followed by the mass number.
\<close>

definition upperChar :: "char \<Rightarrow> char" where
  "upperChar c =
     (let n = (of_char c :: nat) in if 97 \<le> n \<and> n \<le> 122 then char_of (n - 32) else c)"

definition REST_StringToBool :: "string \<Rightarrow> bool" where
  "REST_StringToBool s = (map upperChar s = ''TRUE'' \<or> map upperChar s = ''ON'')"

definition elementName :: "string list" where
  "elementName =
     [''H'', ''He'', ''Li'', ''Be'', ''B'', ''C'', ''N'', ''O'', ''F'', ''Ne'',
      ''Na'', ''Mg'', ''Al'', ''Si'', ''P'', ''S'', ''Cl'', ''Ar'', ''K'', ''Ca'',
      ''Sc'', ''Ti'', ''V'', ''Cr'', ''Mn'', ''Fe'', ''Co'', ''Ni'', ''Cu'', ''Zn'',
      ''Ga'', ''Ge'', ''As'', ''Se'', ''Br'', ''Kr'', ''Rb'', ''Sr'', ''Y'', ''Zr'']"

definition G4IonName :: "int \<Rightarrow> int \<Rightarrow> int \<Rightarrow> string" where
  "G4IonName Z A lvl =
     (if 0 < Z \<and> Z \<le> 40
      then elementName ! nat (Z - 1) @ string_of_int A
           @ (if lvl > 0 then ''['' @ string_of_int lvl @ '']'' else [])
      else ''?'')"

definition engine :: "string list \<Rightarrow> externals" where
  "engine particles =
     \<lparr> StringToBool = REST_StringToBool, theParticleIterator = particles,
       GetIonName = G4IonName \<rparr>"

subsection \<open>What resolution yields, in closed form\<close>

text \<open>A name is enabled when the configuration answers "found", as every selection test reads it.\<close>

definition enabled :: "TRestGeant4PhysicsLists \<Rightarrow> string \<Rightarrow> bool" where
  "enabled cfg name = (FindPhysicsList cfg name \<ge> 0)"

text \<open>The electromagnetic and hadronic names the source tests, in the order of its tests.\<close>

definition emPhysicsLists :: "(string \<times> G4VPhysicsConstructor) list" where
  "emPhysicsLists =
     [(''G4EmLivermorePhysics'', G4EmLivermorePhysics),
      (''G4EmPenelopePhysics'', G4EmPenelopePhysics),
      (''G4EmStandardPhysics_option3'', G4EmStandardPhysics_option3),
      (''G4EmStandardPhysics_option4'', G4EmStandardPhysics_option4)]"

definition hadronPhysicsLists :: "(string \<times> G4VPhysicsConstructor) list" where
  "hadronPhysicsLists =
     [(''G4HadronPhysicsQGSP_BIC_HP'', G4HadronPhysicsQGSP_BIC_HP),
      (''G4IonBinaryCascadePhysics'', G4IonBinaryCascadePhysics),
      (''G4HadronElasticPhysicsHP'', G4HadronElasticPhysicsHP),
      (''G4NeutronTrackingCut'', G4NeutronTrackingCut),
      (''G4EmExtraPhysics'', G4EmExtraPhysics)]"

definition found ::
  "TRestGeant4PhysicsLists \<Rightarrow> (string \<times> G4VPhysicsConstructor) list
     \<Rightarrow> (string \<times> G4VPhysicsConstructor) list" where
  "found cfg table = filter (\<lambda>entry. enabled cfg (fst entry)) table"

definition keepFirstEm ::
  "(string \<times> G4VPhysicsConstructor) list \<Rightarrow> PhysicsList \<Rightarrow> PhysicsList" where
  "keepFirstEm fs this =
     (case fs of
        [] \<Rightarrow> this
      | entry # rest \<Rightarrow> this\<lparr>fEmPhysicsList := Some (snd entry), fEmPhysicsListName := fst entry\<rparr>)"

definition decayEvents :: "TRestGeant4PhysicsLists \<Rightarrow> event list" where
  "decayEvents cfg =
     (if enabled cfg ''G4DecayPhysics'' then [New G4DecayPhysics]
      else if level (GetVerboseLevel cfg) \<ge> level REST_Debug
      then [G4cout ''restG4. PhysicsList. G4DecayPhysics is not enabled!!''] else [])
   @ (if enabled cfg ''G4RadioactiveDecayPhysics'' then [New G4RadioactiveDecayPhysics]
      else if level (GetVerboseLevel cfg) \<ge> level REST_Debug
      then [G4cout ''restG4. PhysicsList. G4RadioactiveDecayPhysics is not enabled!!''] else [])"

definition preamble :: "TRestGeant4PhysicsLists \<Rightarrow> event list" where
  "preamble cfg =
     [G4UnitDefinition ''minute'' ''min'' ''Time'' minute,
      G4UnitDefinition ''hour'' ''h'' ''Time'' hour,
      G4UnitDefinition ''day'' ''d'' ''Time'' day,
      G4UnitDefinition ''year'' ''y'' ''Time'' year,
      G4LossTableManager_Instance,
      SetEnergyRange (GetMinimumEnergyProductionCuts cfg * keV)
                     (GetMaximumEnergyProductionCuts cfg * keV)]"

definition resolved :: "TRestGeant4PhysicsLists \<Rightarrow> PhysicsList" where
  "resolved cfg =
     \<lparr> fEmPhysicsList = map_option snd (List.find (\<lambda>entry. enabled cfg (fst entry)) emPhysicsLists),
       fEmPhysicsListName =
         (case List.find (\<lambda>entry. enabled cfg (fst entry)) emPhysicsLists of
            None \<Rightarrow> [] | Some entry \<Rightarrow> fst entry),
       fDecPhysicsList = (if enabled cfg ''G4DecayPhysics'' then Some G4DecayPhysics else None),
       fRadDecPhysicsList =
         (if enabled cfg ''G4RadioactiveDecayPhysics'' then Some G4RadioactiveDecayPhysics else None),
       fHadronPhys = map snd (found cfg hadronPhysicsLists),
       fRestPhysicsLists = cfg,
       defaultCutValue = 1 / 10 * mm \<rparr>"

fun result :: "'a outcome \<Rightarrow> 'a option" where
  "result (Return x) = Some x"
| "result (Exit status) = None"



text \<open>The physics constructors instantiated, in order.\<close>

fun instanceOf :: "event \<Rightarrow> G4VPhysicsConstructor list" where
  "instanceOf (New m) = [m]"
| "instanceOf e = []"

definition instantiated :: "event list \<Rightarrow> G4VPhysicsConstructor list" where
  "instantiated tr = concat (map instanceOf tr)"

subsection \<open>The two construction phases and the step-limiter plan, in closed form\<close>

text \<open>A slot as a list of zero or one modules.\<close>

definition present :: "'a option \<Rightarrow> 'a list" where
  "present x = (case x of None \<Rightarrow> [] | Some m \<Rightarrow> [m])"

text \<open>Events of process construction proper: transport, module construction, EM options.\<close>

fun isModuleConstruction :: "event \<Rightarrow> bool" where
  "isModuleConstruction AddTransportation = True"
| "isModuleConstruction (ConstructProcessOf m) = True"
| "isModuleConstruction EmConfig_AddModels = True"
| "isModuleConstruction (ApplyCommand c) = True"
| "isModuleConstruction e = False"

text \<open>The fixed-name rules: the species the loop over the particle iterator looks for, and the limiter each gets.\<close>

definition fixedNameRules :: "(string \<times> string) list" where
  "fixedNameRules =
     [(''e-'', ''e-Step''), (''e+'', ''e+Step''), (''mu-'', ''mu-Step''), (''mu+'', ''mu+Step'')]"

definition fixedPlan :: "string list \<Rightarrow> (G4ParticleDefinition \<times> string) list" where
  "fixedPlan universe =
     concat (map (\<lambda>n. case map_of fixedNameRules n of
                          None \<Rightarrow> [] | Some tag \<Rightarrow> [(Particle n, tag)]) universe)"

text \<open>
  The ion rules: for each pair of the sweep, in the order of the two loops, one entry per
  element of the list that equals the pair's name.
\<close>

definition inSweep :: "int \<Rightarrow> int \<Rightarrow> bool" where
  "inSweep Z A = (1 \<le> Z \<and> Z \<le> 40 \<and> 2 * Z \<le> A \<and> A \<le> 3 * Z)"

definition ionPlan :: "externals \<Rightarrow> string list \<Rightarrow> (G4ParticleDefinition \<times> string) list" where
  "ionPlan ext names =
     concat (map (\<lambda>Z. concat (map (\<lambda>A. replicate (count_list names (GetIonName ext Z A 0))
                                              (Ion Z A 0, ''ionStep''))
                                   [2 * Z..3 * Z]))
                 [1..40])"

text \<open>An ion entry, and the order of the sweep on ion entries: by Z, then by A.\<close>

fun isIonRule :: "G4ParticleDefinition \<times> string \<Rightarrow> bool" where
  "isIonRule (Ion Z A lvl, tag) = (lvl = 0 \<and> tag = ''ionStep'')"
| "isIonRule p = False"

fun ionBefore :: "G4ParticleDefinition \<times> string \<Rightarrow> G4ParticleDefinition \<times> string \<Rightarrow> bool" where
  "ionBefore (Ion Z A lvl, tag) (Ion Z' A' lvl', tag') = (Z < Z' \<or> (Z = Z' \<and> A \<le> A'))"
| "ionBefore p q = False"

section \<open>Properties\<close>

subsection \<open>Resolution in closed form\<close>

lemma selectAllEm_eq:
  assumes "fEmPhysicsList this = None"
  shows "selectAllEm (this, tr) =
     (keepFirstEm (found (fRestPhysicsLists this) emPhysicsLists) this,
      int (length (found (fRestPhysicsLists this) emPhysicsLists)),
      tr @ map (\<lambda>entry. New (snd entry)) (take 1 (found (fRestPhysicsLists this) emPhysicsLists)))"
  using assms
  by (simp add: selectAllEm_def selectEm_def found_def emPhysicsLists_def enabled_def keepFirstEm_def)

lemma selectAllHadron_eq:
  "selectAllHadron (this, tr) =
     (this\<lparr>fHadronPhys := fHadronPhys this @ map snd (found (fRestPhysicsLists this) hadronPhysicsLists)\<rparr>,
      tr @ map (\<lambda>entry. New (snd entry)) (found (fRestPhysicsLists this) hadronPhysicsLists))"
  by (simp add: selectAllHadron_def selectHadron_def found_def hadronPhysicsLists_def enabled_def)

lemma selectDecays_eq:
  "selectRadDecay (selectDecay (this, tr)) =
     (this\<lparr>fDecPhysicsList := (if enabled (fRestPhysicsLists this) ''G4DecayPhysics''
                                 then Some G4DecayPhysics else fDecPhysicsList this),
           fRadDecPhysicsList := (if enabled (fRestPhysicsLists this) ''G4RadioactiveDecayPhysics''
                                 then Some G4RadioactiveDecayPhysics else fRadDecPhysicsList this)\<rparr>,
      tr @ decayEvents (fRestPhysicsLists this))"
  by (simp add: selectDecay_def selectRadDecay_def decayEvents_def enabled_def)

lemma InitializePhysicsLists_eq:
  assumes "fEmPhysicsList this = None"
  shows "InitializePhysicsLists (this, tr) =
     (let cfg = fRestPhysicsLists this;
          ems = found cfg emPhysicsLists;
          hads = map snd (found cfg hadronPhysicsLists);
          tr1 = tr @ decayEvents cfg @ map (\<lambda>entry. New (snd entry)) (take 1 ems)
                @ (if level (GetVerboseLevel cfg) \<ge> level REST_Essential \<and> ems = []
                   then [RESTWarning noEmWarning] else [])
      in if length ems > 1 then (Exit 1, tr1 @ [Cerr moreThanOneEm])
         else (Return (keepFirstEm ems
                 (this\<lparr>fDecPhysicsList := (if enabled cfg ''G4DecayPhysics''
                                 then Some G4DecayPhysics else fDecPhysicsList this),
                       fRadDecPhysicsList := (if enabled cfg ''G4RadioactiveDecayPhysics''
                                 then Some G4RadioactiveDecayPhysics else fRadDecPhysicsList this),
                       fHadronPhys := fHadronPhys this @ hads\<rparr>)),
               tr1 @ map New hads
               @ [G4cout (''Number of hadronic physics lists added ''
                          @ string_of_nat (length (fHadronPhys this @ hads)))]))"
  using assms
  apply (simp add: InitializePhysicsLists_def selectDecays_eq selectAllEm_eq selectAllHadron_eq Let_def
      del: One_nat_def)
  apply (cases "found (fRestPhysicsLists this) emPhysicsLists")
   apply (simp_all add: keepFirstEm_def comp_def)
  done

lemma find_filter: "List.find P xs = (case filter P xs of [] \<Rightarrow> None | x # _ \<Rightarrow> Some x)"
  by (induction xs) auto

lemma PhysicsList_ctor_eq:
  "PhysicsList_ctor cfg =
     (let ems = found cfg emPhysicsLists;
          tr1 = preamble cfg @ decayEvents cfg @ map (\<lambda>entry. New (snd entry)) (take 1 ems)
                @ (if level (GetVerboseLevel cfg) \<ge> level REST_Essential \<and> ems = []
                   then [RESTWarning noEmWarning] else [])
      in if length ems > 1 then (Exit 1, tr1 @ [Cerr moreThanOneEm])
         else (Return (resolved cfg),
               tr1 @ map New (fHadronPhys (resolved cfg))
               @ [G4cout (''Number of hadronic physics lists added ''
                          @ string_of_nat (length (fHadronPhys (resolved cfg))))]))"
  unfolding PhysicsList_ctor_def
  apply (subst InitializePhysicsLists_eq)
   apply (simp add: newPhysicsList_def)
  apply (simp add: Let_def newPhysicsList_def resolved_def preamble_def found_def [symmetric]
      find_filter keepFirstEm_def del: One_nat_def)
  apply (cases "found cfg emPhysicsLists")
   apply (simp_all add: found_def newPhysicsList_def)
  done

lemma ctor_Return:
  "fst (PhysicsList_ctor cfg) = Return this \<Longrightarrow> this = resolved cfg"
  by (simp add: PhysicsList_ctor_eq Let_def split: if_splits)

lemma two_found:
  assumes "distinct xs" "a \<in> set xs" "b \<in> set xs" "a \<noteq> b" "P a" "P b"
  shows "2 \<le> length (filter P xs)"
proof -
  have "{a, b} \<subseteq> set (filter P xs)" using assms by simp
  then have "card {a, b} \<le> card (set (filter P xs))"
    by (intro card_mono) simp_all
  also have "\<dots> = length (filter P xs)"
    by (rule distinct_card) (simp add: assms(1))
  finally show ?thesis using assms(4) by simp
qed

lemma two_em_found:
  assumes "n1 \<in> set (map fst emPhysicsLists)" "n2 \<in> set (map fst emPhysicsLists)"
    "n1 \<noteq> n2" "enabled cfg n1" "enabled cfg n2"
  shows "1 < length (found cfg emPhysicsLists)"
proof -
  have d: "distinct (map fst emPhysicsLists)" by (simp add: emPhysicsLists_def)
  have "2 \<le> length (filter (enabled cfg) (map fst emPhysicsLists))"
    using two_found [OF d assms] .
  also have "length (filter (enabled cfg) (map fst emPhysicsLists)) = length (found cfg emPhysicsLists)"
    by (simp add: found_def filter_map comp_def)
  finally show ?thesis by simp
qed

lemma found_window [simp]:
  "found (cfg\<lparr>GetMinimumEnergyProductionCuts := lo, GetMaximumEnergyProductionCuts := hi\<rparr>) table
     = found cfg table"
  by (simp add: found_def enabled_def)

subsection \<open>Reading the constructor's trace\<close>

lemma quiet_New [simp]:
  "filter isAssembly (map (\<lambda>entry. New (f entry)) xs) = []"
  "diagnostics (map (\<lambda>entry. New (f entry)) xs) = []"
  "warnings (map (\<lambda>entry. New (f entry)) xs) = []"
  "filter isSetEnergyRange (map (\<lambda>entry. New (f entry)) xs) = []"
  by (induction xs) (simp_all add: diagnostics_def warnings_def)

lemma quiet_decayEvents [simp]:
  "filter isAssembly (decayEvents cfg) = []"
  "diagnostics (decayEvents cfg) = []"
  "warnings (decayEvents cfg) = []"
  "filter isSetEnergyRange (decayEvents cfg) = []"
  by (simp_all add: decayEvents_def diagnostics_def warnings_def)

lemma quiet_preamble [simp]:
  "filter isAssembly (preamble cfg) = []"
  "diagnostics (preamble cfg) = []"
  "warnings (preamble cfg) = []"
  "filter isSetEnergyRange (preamble cfg) =
     [SetEnergyRange (GetMinimumEnergyProductionCuts cfg * keV)
                     (GetMaximumEnergyProductionCuts cfg * keV)]"
  by (simp_all add: preamble_def diagnostics_def warnings_def)

lemma diagnostics_append [simp]: "diagnostics (xs @ ys) = diagnostics xs @ diagnostics ys"
  by (simp add: diagnostics_def)

lemma warnings_append [simp]: "warnings (xs @ ys) = warnings xs @ warnings ys"
  by (simp add: warnings_def)

lemma diagnostics_simps [simp]:
  "diagnostics [] = []" "diagnostics (e # tr) = diagnosticOf e @ diagnostics tr"
  by (simp_all add: diagnostics_def)

lemma warnings_simps [simp]:
  "warnings [] = []" "warnings (e # tr) = warningOf e @ warnings tr"
  by (simp_all add: warnings_def)

subsection \<open>The two phases in closed form\<close>

lemma foldl_snoc: "foldl (\<lambda>tr m. tr @ [f m]) tr ms = tr @ map f ms"
  by (induction ms arbitrary: tr) simp_all

lemma constructEm_append: "constructEm ext this tr = tr @ constructEm ext this []"
  by (simp add: constructEm_def emOption_def Let_def split: option.splits)

lemma radioactiveDecayBlock_append:
  "radioactiveDecayBlock this tr = tr @ radioactiveDecayBlock this []"
  by (simp add: radioactiveDecayBlock_def radioactiveFlag_def Let_def)

lemma constructEm_append_ne:
  "tr \<noteq> [] \<Longrightarrow> constructEm ext this tr = tr @ constructEm ext this []"
  by (rule constructEm_append)

lemma radioactiveDecayBlock_append_ne:
  "tr \<noteq> [] \<Longrightarrow> radioactiveDecayBlock this tr = tr @ radioactiveDecayBlock this []"
  by (rule radioactiveDecayBlock_append)

lemma ConstructParticle_eq:
  "ConstructParticle this tr =
     tr @ GeantinoDefinition
        # map ConstructParticleOf
            (present (fDecPhysicsList this) @ present (fEmPhysicsList this)
             @ present (fRadDecPhysicsList this) @ fHadronPhys this)"
  by (simp add: ConstructParticle_def Let_def foldl_snoc present_def split: option.splits)

lemma ConstructProcess_eq:
  "ConstructProcess ext this tr =
     tr @ AddTransportation # constructEm ext this []
        @ map ConstructProcessOf
            (present (fDecPhysicsList this) @ present (fRadDecPhysicsList this) @ fHadronPhys this)
        @ radioactiveDecayBlock this []
        @ concat (map stepLimiterFor (theParticleIterator ext))
        @ ionStepLoop ext (GetIonStepList (fRestPhysicsLists this))"
  by (simp add: ConstructProcess_def Let_def foldl_snoc present_def constructEm_append_ne
      radioactiveDecayBlock_append_ne split: option.splits)

lemma commands_simps [simp]:
  "commands [] = []"
  "commands (e # tr) = commandOf e @ commands tr"
  "commands (xs @ ys) = commands xs @ commands ys"
  by (simp_all add: commands_def)

lemma filter_modules [simp]:
  "filter isModuleConstruction (concat (map stepLimiterFor universe)) = []"
  by (induction universe) (simp_all add: stepLimiterFor_def)

lemma filter_modules_ions [simp]: "filter isModuleConstruction (ionStepLoop ext names) = []"
  by (simp add: ionStepLoop_def ionStepFor_def filter_concat comp_def)

lemma filter_modules_radioactive [simp]:
  "filter isModuleConstruction (radioactiveDecayBlock this []) = []"
  by (simp add: radioactiveDecayBlock_def radioactiveFlag_def Let_def)

subsection \<open>The step limiters attached by process construction\<close>

lemma stepLimiters_simps [simp]:
  "stepLimiters [] = []"
  "stepLimiters (e # tr) = limiterOf e @ stepLimiters tr"
  "stepLimiters (xs @ ys) = stepLimiters xs @ stepLimiters ys"
  by (simp_all add: stepLimiters_def)

lemma stepLimiters_concat: "stepLimiters (concat xss) = concat (map stepLimiters xss)"
  by (induction xss) simp_all

lemma stepLimiters_constructEm [simp]: "stepLimiters (constructEm ext this []) = []"
  by (simp add: constructEm_def emOption_def Let_def split: option.splits)

lemma stepLimiters_modules [simp]: "stepLimiters (map ConstructProcessOf ms) = []"
  by (induction ms) simp_all

lemma stepLimiters_radioactive [simp]: "stepLimiters (radioactiveDecayBlock this []) = []"
  by (simp add: radioactiveDecayBlock_def radioactiveFlag_def Let_def)

lemma stepLimiters_fixed:
  "stepLimiters (concat (map stepLimiterFor universe)) = fixedPlan universe"
  by (induction universe) (simp_all add: fixedPlan_def stepLimiterFor_def fixedNameRules_def)

lemma stepLimiters_ionStepFor:
  "concat (map (\<lambda>entry. stepLimiters (ionStepFor ext Z A entry)) names) =
     replicate (count_list names (GetIonName ext Z A 0)) (Ion Z A 0, ''ionStep'')"
  by (induction names) (simp_all add: ionStepFor_def)

lemma stepLimiters_ionStepLoop: "stepLimiters (ionStepLoop ext names) = ionPlan ext names"
  by (simp add: ionStepLoop_def ionPlan_def stepLimiters_concat comp_def stepLimiters_ionStepFor)

lemma stepLimiters_ConstructProcess:
  "stepLimiters (ConstructProcess ext this []) =
     fixedPlan (theParticleIterator ext) @ ionPlan ext (GetIonStepList (fRestPhysicsLists this))"
  by (simp add: ConstructProcess_eq stepLimiters_fixed stepLimiters_ionStepLoop)

lemma set_ionPlan:
  "set (ionPlan ext names) =
     {(Ion Z A 0, ''ionStep'') | Z A. inSweep Z A \<and> GetIonName ext Z A 0 \<in> set names}"
  by (auto simp add: ionPlan_def inSweep_def count_list_0_iff)

lemma set_fixedPlan:
  "set (fixedPlan universe) =
     {(Particle n, tag) | n tag. n \<in> set universe \<and> (n, tag) \<in> set fixedNameRules}"
  by (auto simp add: fixedPlan_def fixedNameRules_def split: option.splits if_splits)

lemma count_list_replicate: "count_list (replicate n x) y = (if x = y then n else 0)"
  by (induction n) auto

lemma sum_list_indicator:
  "distinct xs \<Longrightarrow>
     sum_list (map (\<lambda>x. if x = a then f x else 0) xs) = (if a \<in> set xs then f a else (0::nat))"
  by (induction xs) auto

lemma count_ionPlan:
  "count_list (ionPlan ext names) (Ion Z A 0, ''ionStep'') =
     (if inSweep Z A then count_list names (GetIonName ext Z A 0) else 0)"
proof -
  let ?k = "\<lambda>Z A. count_list names (GetIonName ext Z A 0)"
  define row where
    "row Z' = concat (map (\<lambda>A'. replicate (?k Z' A') (Ion Z' A' 0, ''ionStep'')) [2 * Z'..3 * Z'])"
    for Z'
  have plan: "ionPlan ext names = concat (map row [1..40])"
    by (simp add: ionPlan_def row_def [abs_def])
  have inner: "count_list (row Z') (Ion Z A 0, ''ionStep'')
        = (if Z' = Z then (if 2 * Z' \<le> A \<and> A \<le> 3 * Z' then ?k Z' A else 0) else 0)" for Z'
  proof -
    have each: "count_list (replicate (?k Z' A') (Ion Z' A' 0, ''ionStep'')) (Ion Z A 0, ''ionStep'')
        = (if A' = A then (if Z' = Z then ?k Z' A' else 0) else 0)" for A'
      by (simp add: count_list_replicate)
    have "count_list (row Z') (Ion Z A 0, ''ionStep'')
        = sum_list (map (\<lambda>A'. if A' = A then (if Z' = Z then ?k Z' A' else 0) else 0) [2 * Z'..3 * Z'])"
      unfolding row_def count_list_concat map_map comp_def each ..
    also have "\<dots> = (if A \<in> set [2 * Z'..3 * Z'] then (if Z' = Z then ?k Z' A else 0) else 0)"
      by (rule sum_list_indicator) simp
    finally show ?thesis by auto
  qed
  have "count_list (ionPlan ext names) (Ion Z A 0, ''ionStep'')
        = sum_list (map (\<lambda>Z'. if Z' = Z then (if 2 * Z' \<le> A \<and> A \<le> 3 * Z' then ?k Z' A else 0) else 0)
             [1..40])"
    unfolding plan count_list_concat map_map comp_def inner ..
  also have "\<dots> = (if Z \<in> set [1..40] then (if 2 * Z \<le> A \<and> A \<le> 3 * Z then ?k Z A else 0) else 0)"
    by (rule sum_list_indicator) simp
  finally show ?thesis by (auto simp add: inSweep_def)
qed

lemma count_fixedPlan_ion: "count_list (fixedPlan universe) (Ion Z A lvl, tag) = 0"
  by (auto simp add: count_list_0_iff set_fixedPlan)

lemma sorted_wrt_same: "R x x \<Longrightarrow> sorted_wrt R (replicate n x)"
  by (induction n) simp_all

lemma sorted_wrt_concat_map:
  assumes "sorted_wrt (\<lambda>x y. \<forall>a \<in> set (f x). \<forall>b \<in> set (f y). R a b) xs"
    and "\<And>x. x \<in> set xs \<Longrightarrow> sorted_wrt R (f x)"
  shows "sorted_wrt R (concat (map f xs))"
  using assms by (induction xs) (auto simp add: sorted_wrt_append)

lemma sorted_ionPlan: "sorted_wrt ionBefore (ionPlan ext names)"
  unfolding ionPlan_def
proof (rule sorted_wrt_concat_map)
  show "sorted_wrt (\<lambda>Z Z'. \<forall>a\<in>set (concat (map (\<lambda>A. replicate (count_list names (GetIonName ext Z A 0))
                  (Ion Z A 0, ''ionStep'')) [2 * Z..3 * Z])).
           \<forall>b\<in>set (concat (map (\<lambda>A. replicate (count_list names (GetIonName ext Z' A 0))
                  (Ion Z' A 0, ''ionStep'')) [2 * Z'..3 * Z'])). ionBefore a b) [1..40]"
    by (rule sorted_wrt_mono_rel [OF _ sorted_wrt_upto]) auto
next
  fix Z :: int
  show "sorted_wrt ionBefore (concat (map (\<lambda>A. replicate (count_list names (GetIonName ext Z A 0))
                  (Ion Z A 0, ''ionStep'')) [2 * Z..3 * Z]))"
  proof (rule sorted_wrt_concat_map)
    show "sorted_wrt (\<lambda>A A'. \<forall>a\<in>set (replicate (count_list names (GetIonName ext Z A 0))
                  (Ion Z A 0, ''ionStep'')).
           \<forall>b\<in>set (replicate (count_list names (GetIonName ext Z A' 0))
                  (Ion Z A' 0, ''ionStep'')). ionBefore a b) [2 * Z..3 * Z]"
      by (rule sorted_wrt_mono_rel [OF _ sorted_wrt_upto]) auto
  next
    fix A :: int
    show "sorted_wrt ionBefore (replicate (count_list names (GetIonName ext Z A 0))
                  (Ion Z A 0, ''ionStep''))"
      by (rule sorted_wrt_same) simp
  qed
qed

lemma list_all_ionPlan: "list_all isIonRule (ionPlan ext names)"
  by (auto simp add: list_all_iff set_ionPlan)

subsection \<open>What precedes the exclusivity exit, and declared module lists\<close>

lemma instantiated_simps [simp]:
  "instantiated [] = []"
  "instantiated (e # tr) = instanceOf e @ instantiated tr"
  "instantiated (xs @ ys) = instantiated xs @ instantiated ys"
  by (simp_all add: instantiated_def)

lemma instantiated_New [simp]:
  "instantiated (map (\<lambda>entry. New (f entry)) xs) = map f xs"
  by (induction xs) simp_all

lemma instantiated_preamble [simp]: "instantiated (preamble cfg) = []"
  by (simp add: preamble_def)

lemma instantiated_decayEvents:
  "instantiated (decayEvents cfg) =
     (if enabled cfg ''G4DecayPhysics'' then [G4DecayPhysics] else [])
     @ (if enabled cfg ''G4RadioactiveDecayPhysics'' then [G4RadioactiveDecayPhysics] else [])"
  by (simp add: decayEvents_def)

lemma findIndex_found: "0 \<le> findIndex xs x \<longleftrightarrow> x \<in> set xs"
  by (induction xs) (auto simp add: Let_def)

lemma enabled_configSource:
  "enabled (configSource modules verbosity ionSteps) n \<longleftrightarrow> n \<in> set (map fst modules)"
  by (simp add: enabled_def configSource_def findIndex_found)

lemma length_found_declared:
  "length (found (configSource modules verbosity ionSteps) emPhysicsLists)
     = card (set (map fst emPhysicsLists) \<inter> set (map fst modules))"
proof -
  let ?cfg = "configSource modules verbosity ionSteps"
  have d: "distinct (map fst emPhysicsLists)" by (simp add: emPhysicsLists_def)
  have "length (found ?cfg emPhysicsLists) = length (filter (enabled ?cfg) (map fst emPhysicsLists))"
    by (simp add: found_def filter_map comp_def)
  also have "\<dots> = card (set (filter (enabled ?cfg) (map fst emPhysicsLists)))"
    by (rule distinct_card [symmetric]) (simp add: d)
  also have "set (filter (enabled ?cfg) (map fst emPhysicsLists))
      = set (map fst emPhysicsLists) \<inter> set (map fst modules)"
    by (auto simp add: enabled_configSource)
  finally show ?thesis .
qed

lemma em_name_not_in_diagnostic:
  assumes "n \<in> set (map fst emPhysicsLists)"
  shows "\<not> sublist n moreThanOneEm"
proof -
  have "\<not> sublist ''G4EmLivermorePhysics'' moreThanOneEm"
    "\<not> sublist ''G4EmPenelopePhysics'' moreThanOneEm"
    "\<not> sublist ''G4EmStandardPhysics_option3'' moreThanOneEm"
    "\<not> sublist ''G4EmStandardPhysics_option4'' moreThanOneEm"
    by code_simp+
  with assms show ?thesis by (auto simp add: emPhysicsLists_def)
qed

section \<open>The claims\<close>

subsection \<open>Electromagnetic exclusivity\<close>

text \<open>
  Claim C1, as the code has it. Whenever two different names among the four
  electromagnetic names the source tests are enabled, the run ends inside the
  constructor with \<open>exit(1)\<close>. The error stream carries exactly the fixed line
  "PhysicsList: More than 1 EM PhysicsList enabled.", which contains neither of the two
  names and is the last event; no warning is emitted. The trace of the run is the trace
  of the constructor, so no particle construction, process construction or cut
  assignment takes place. Before the exit the constructor has handed the energy window
  to \<open>SetEnergyRange\<close> and has instantiated exactly the decay and radioactive-decay
  modules that are enabled and the first enabled electromagnetic module in the order of
  the tests. For a declared module list, the constructor returns exactly when at most
  one distinct electromagnetic name is declared: a name declared twice counts once.
\<close>

theorem em_exclusivity_exit:
  assumes "n1 \<in> set (map fst emPhysicsLists)" and "n2 \<in> set (map fst emPhysicsLists)"
    and "n1 \<noteq> n2" and "enabled cfg n1" and "enabled cfg n2"
  shows "fst (Initialize ext cfg) = Exit 1
     \<and> snd (Initialize ext cfg) = snd (PhysicsList_ctor cfg)
     \<and> diagnostics (snd (Initialize ext cfg)) = [moreThanOneEm]
     \<and> filter isAssembly (snd (Initialize ext cfg)) = []
     \<and> warnings (snd (Initialize ext cfg)) = []
     \<and> filter isSetEnergyRange (snd (Initialize ext cfg)) =
         [SetEnergyRange (GetMinimumEnergyProductionCuts cfg * keV)
                         (GetMaximumEnergyProductionCuts cfg * keV)]
     \<and> instantiated (snd (Initialize ext cfg)) =
         (if enabled cfg ''G4DecayPhysics'' then [G4DecayPhysics] else [])
         @ (if enabled cfg ''G4RadioactiveDecayPhysics'' then [G4RadioactiveDecayPhysics] else [])
         @ [snd (hd (filter (\<lambda>entry. enabled cfg (fst entry)) emPhysicsLists))]
     \<and> last (snd (Initialize ext cfg)) = Cerr moreThanOneEm
     \<and> \<not> sublist n1 moreThanOneEm \<and> \<not> sublist n2 moreThanOneEm
     \<and> returns (fst (PhysicsList_ctor (configSource modules verbosity ionSteps)))
         = (card (set (map fst emPhysicsLists) \<inter> set (map fst modules)) \<le> 1)"
proof -
  have many: "1 < length (found cfg emPhysicsLists)"
    using assms by (rule two_em_found)
  then have ne: "found cfg emPhysicsLists \<noteq> []" by auto
  then have first: "map snd (take 1 (found cfg emPhysicsLists))
      = [snd (hd (filter (\<lambda>entry. enabled cfg (fst entry)) emPhysicsLists))]"
    by (cases "found cfg emPhysicsLists") (simp_all add: found_def)
  have declared: "returns (fst (PhysicsList_ctor (configSource modules verbosity ionSteps)))
         = (card (set (map fst emPhysicsLists) \<inter> set (map fst modules)) \<le> 1)"
    unfolding length_found_declared [symmetric, of _ verbosity ionSteps]
    by (auto simp add: PhysicsList_ctor_eq Let_def)
  from many ne first have "fst (Initialize ext cfg) = Exit 1
     \<and> snd (Initialize ext cfg) = snd (PhysicsList_ctor cfg)
     \<and> diagnostics (snd (Initialize ext cfg)) = [moreThanOneEm]
     \<and> filter isAssembly (snd (Initialize ext cfg)) = []
     \<and> warnings (snd (Initialize ext cfg)) = []
     \<and> filter isSetEnergyRange (snd (Initialize ext cfg)) =
         [SetEnergyRange (GetMinimumEnergyProductionCuts cfg * keV)
                         (GetMaximumEnergyProductionCuts cfg * keV)]
     \<and> instantiated (snd (Initialize ext cfg)) =
         (if enabled cfg ''G4DecayPhysics'' then [G4DecayPhysics] else [])
         @ (if enabled cfg ''G4RadioactiveDecayPhysics'' then [G4RadioactiveDecayPhysics] else [])
         @ [snd (hd (filter (\<lambda>entry. enabled cfg (fst entry)) emPhysicsLists))]
     \<and> last (snd (Initialize ext cfg)) = Cerr moreThanOneEm"
    by (simp add: Initialize_def PhysicsList_ctor_eq Let_def instantiated_decayEvents
        del: One_nat_def)
  with declared em_name_not_in_diagnostic [OF assms(1)] em_name_not_in_diagnostic [OF assms(2)]
  show ?thesis by blast
qed

text \<open>
  The theorem at a configuration declaring Penelope, then Livermore (Livermore is the
  module instantiated), and at a list declaring Penelope twice.
\<close>

theorem em_exclusivity_exit_witness:
  "enabled (configSource [(''G4EmPenelopePhysics'', []), (''G4EmLivermorePhysics'', [])] REST_Silent [])
     ''G4EmLivermorePhysics''
   \<and> enabled (configSource [(''G4EmPenelopePhysics'', []), (''G4EmLivermorePhysics'', [])] REST_Silent [])
     ''G4EmPenelopePhysics''
   \<and> fst (Initialize (engine [''e-''])
        (configSource [(''G4EmPenelopePhysics'', []), (''G4EmLivermorePhysics'', [])] REST_Silent []))
      = Exit 1
   \<and> diagnostics (snd (Initialize (engine [''e-''])
        (configSource [(''G4EmPenelopePhysics'', []), (''G4EmLivermorePhysics'', [])] REST_Silent [])))
      = [moreThanOneEm]
   \<and> filter isAssembly (snd (Initialize (engine [''e-''])
        (configSource [(''G4EmPenelopePhysics'', []), (''G4EmLivermorePhysics'', [])] REST_Silent [])))
      = []
   \<and> filter isSetEnergyRange (snd (Initialize (engine [''e-''])
        (configSource [(''G4EmPenelopePhysics'', []), (''G4EmLivermorePhysics'', [])] REST_Silent [])))
      = [SetEnergyRange (1 / 1000) 1000]
   \<and> instantiated (snd (Initialize (engine [''e-''])
        (configSource [(''G4EmPenelopePhysics'', []), (''G4EmLivermorePhysics'', [])] REST_Silent [])))
      = [G4EmLivermorePhysics]
   \<and> returns (fst (PhysicsList_ctor (configSource
        [(''G4EmPenelopePhysics'', []), (''G4DecayPhysics'', []), (''G4EmPenelopePhysics'', [])]
        REST_Silent [])))"
proof -
  let ?cfg = "configSource [(''G4EmPenelopePhysics'', []), (''G4EmLivermorePhysics'', [])] REST_Silent []"
  let ?twice = "[(''G4EmPenelopePhysics'', []), (''G4DecayPhysics'', []), (''G4EmPenelopePhysics'', [])]
      :: (string \<times> (string \<times> string) list) list"
  have m1: "''G4EmLivermorePhysics'' \<in> set (map fst emPhysicsLists)"
    and m2: "''G4EmPenelopePhysics'' \<in> set (map fst emPhysicsLists)"
    by (simp_all add: emPhysicsLists_def)
  have d: "''G4EmLivermorePhysics'' \<noteq> ''G4EmPenelopePhysics''" by simp
  have e1: "enabled ?cfg ''G4EmLivermorePhysics''"
    and e2: "enabled ?cfg ''G4EmPenelopePhysics''"
    by (simp_all add: enabled_def configSource_def)
  have off: "\<not> enabled ?cfg ''G4DecayPhysics''" "\<not> enabled ?cfg ''G4RadioactiveDecayPhysics''"
    by (simp_all add: enabled_def configSource_def)
  have first: "snd (hd (filter (\<lambda>entry. enabled ?cfg (fst entry)) emPhysicsLists)) = G4EmLivermorePhysics"
    by (simp add: emPhysicsLists_def enabled_def configSource_def)
  have window: "GetMinimumEnergyProductionCuts ?cfg * keV = 1 / 1000"
    "GetMaximumEnergyProductionCuts ?cfg * keV = 1000"
    by (simp_all add: configSource_def keV_def)
  have "set (map fst emPhysicsLists) \<inter> set (map fst ?twice) = {''G4EmPenelopePhysics''}"
    by (auto simp add: emPhysicsLists_def)
  then have one: "card (set (map fst emPhysicsLists) \<inter> set (map fst ?twice)) \<le> 1"
    by simp
  note T = em_exclusivity_exit [OF m1 m2 d e1 e2, of "engine [''e-'']" ?twice REST_Silent "[]"]
  from T have i: "instantiated (snd (Initialize (engine [''e-'']) ?cfg)) =
         (if enabled ?cfg ''G4DecayPhysics'' then [G4DecayPhysics] else [])
         @ (if enabled ?cfg ''G4RadioactiveDecayPhysics'' then [G4RadioactiveDecayPhysics] else [])
         @ [snd (hd (filter (\<lambda>entry. enabled ?cfg (fst entry)) emPhysicsLists))]"
    by blast
  from T have w: "filter isSetEnergyRange (snd (Initialize (engine [''e-'']) ?cfg)) =
         [SetEnergyRange (GetMinimumEnergyProductionCuts ?cfg * keV)
                         (GetMaximumEnergyProductionCuts ?cfg * keV)]"
    by blast
  have a: "instantiated (snd (Initialize (engine [''e-'']) ?cfg)) = [G4EmLivermorePhysics]"
    using i off by (simp add: first)
  have b: "filter isSetEnergyRange (snd (Initialize (engine [''e-'']) ?cfg))
      = [SetEnergyRange (1 / 1000) 1000]"
    using w unfolding window .
  have c: "returns (fst (PhysicsList_ctor (configSource ?twice REST_Silent [])))"
    using T one by blast
  from T e1 e2 a b c show ?thesis by blast
qed

text \<open>
  Claim C1 as stated fails. With Livermore and Penelope both declared, the only
  diagnostic is the fixed line, which contains neither module name, and the energy
  window has already been handed to the engine. With the same name declared twice the
  constructor returns.
\<close>

theorem em_exclusivity_counterexample:
  "diagnostics (snd (PhysicsList_ctor (configSource
       [(''G4EmLivermorePhysics'', []), (''G4EmPenelopePhysics'', [])] REST_Essential [])))
     = [''PhysicsList: More than 1 EM PhysicsList enabled.'']
   \<and> \<not> sublist ''G4EmLivermorePhysics'' ''PhysicsList: More than 1 EM PhysicsList enabled.''
   \<and> \<not> sublist ''G4EmPenelopePhysics'' ''PhysicsList: More than 1 EM PhysicsList enabled.''
   \<and> filter isSetEnergyRange (snd (PhysicsList_ctor (configSource
       [(''G4EmLivermorePhysics'', []), (''G4EmPenelopePhysics'', [])] REST_Essential [])))
     = [SetEnergyRange (1 / 1000) 1000]
   \<and> returns (fst (PhysicsList_ctor (configSource
       [(''G4EmLivermorePhysics'', []), (''G4EmLivermorePhysics'', [])] REST_Essential [])))"
  by code_simp

subsection \<open>No electromagnetic module\<close>

text \<open>
  Claim C2. When none of the electromagnetic names is enabled, the constructor returns
  an object whose electromagnetic slot is empty; the warning "No EM physics list has
  been enabled" is emitted exactly when the verbosity is \<open>REST_Essential\<close> or higher;
  nothing is written to the error stream and the run proceeds.
\<close>

theorem no_em_proceeds:
  assumes "\<forall>n \<in> set (map fst emPhysicsLists). \<not> enabled cfg n"
  shows "map_option fEmPhysicsList (result (fst (PhysicsList_ctor cfg))) = Some None
     \<and> warnings (snd (PhysicsList_ctor cfg)) =
         (if level REST_Essential \<le> level (GetVerboseLevel cfg) then [noEmWarning] else [])
     \<and> diagnostics (snd (PhysicsList_ctor cfg)) = []
     \<and> returns (fst (Initialize ext cfg))"
proof -
  have none: "found cfg emPhysicsLists = []"
    using assms by (auto simp add: found_def filter_empty_conv)
  have "List.find (\<lambda>entry. enabled cfg (fst entry)) emPhysicsLists = None"
    using none by (simp add: find_filter found_def)
  then have slot: "fEmPhysicsList (resolved cfg) = None"
    by (simp add: resolved_def)
  from none slot show ?thesis
    by (simp add: Initialize_def PhysicsList_ctor_eq Let_def)
qed

text \<open>The theorem at a configuration that declares only the decay module.\<close>

theorem no_em_proceeds_witness:
  "\<not> enabled (configSource [(''G4DecayPhysics'', [])] REST_Essential []) ''G4EmLivermorePhysics''
   \<and> \<not> enabled (configSource [(''G4DecayPhysics'', [])] REST_Essential []) ''G4EmPenelopePhysics''
   \<and> \<not> enabled (configSource [(''G4DecayPhysics'', [])] REST_Essential [])
         ''G4EmStandardPhysics_option3''
   \<and> \<not> enabled (configSource [(''G4DecayPhysics'', [])] REST_Essential [])
         ''G4EmStandardPhysics_option4''
   \<and> map_option fEmPhysicsList
        (result (fst (PhysicsList_ctor (configSource [(''G4DecayPhysics'', [])] REST_Essential []))))
      = Some None
   \<and> warnings (snd (PhysicsList_ctor (configSource [(''G4DecayPhysics'', [])] REST_Essential [])))
      = [noEmWarning]
   \<and> returns (fst (Initialize (engine [''e-''])
        (configSource [(''G4DecayPhysics'', [])] REST_Essential [])))"
proof -
  let ?cfg = "configSource [(''G4DecayPhysics'', [])] REST_Essential []"
  have none: "\<forall>n \<in> set (map fst emPhysicsLists). \<not> enabled ?cfg n"
    by (simp add: emPhysicsLists_def enabled_def configSource_def)
  have lv: "level REST_Essential \<le> level (GetVerboseLevel ?cfg)"
    by (simp add: configSource_def)
  have "\<not> enabled ?cfg ''G4EmLivermorePhysics''" "\<not> enabled ?cfg ''G4EmPenelopePhysics''"
    "\<not> enabled ?cfg ''G4EmStandardPhysics_option3''"
    "\<not> enabled ?cfg ''G4EmStandardPhysics_option4''"
    by (simp_all add: enabled_def configSource_def)
  then show ?thesis
    using no_em_proceeds [OF none, of "engine [''e-'']"] lv by simp
qed

subsection \<open>Hadronic modules\<close>

text \<open>
  Claim C3, as the code has it. The hadronic sequence of a constructed object holds
  each enabled hadronic module once, in the fixed order in which the source tests the
  five names (QGSP_BIC_HP, IonBinaryCascade, HadronElasticHP, NeutronTrackingCut,
  EmExtra): it depends on which names are enabled, not on where or how often they are
  declared.
\<close>

theorem hadronic_fixed_order:
  assumes "fst (PhysicsList_ctor cfg) = Return this"
  shows "fHadronPhys this = map snd (filter (\<lambda>entry. enabled cfg (fst entry)) hadronPhysicsLists)"
  using ctor_Return [OF assms] by (simp add: resolved_def found_def)

text \<open>The theorem at a configuration declaring NeutronTrackingCut twice, around two other modules.\<close>

theorem hadronic_fixed_order_witness:
  "fst (PhysicsList_ctor (configSource
       [(''G4NeutronTrackingCut'', []), (''G4EmLivermorePhysics'', []),
        (''G4HadronElasticPhysicsHP'', []), (''G4NeutronTrackingCut'', [])] REST_Silent []))
     = Return (resolved (configSource
       [(''G4NeutronTrackingCut'', []), (''G4EmLivermorePhysics'', []),
        (''G4HadronElasticPhysicsHP'', []), (''G4NeutronTrackingCut'', [])] REST_Silent []))
   \<and> fHadronPhys (resolved (configSource
       [(''G4NeutronTrackingCut'', []), (''G4EmLivermorePhysics'', []),
        (''G4HadronElasticPhysicsHP'', []), (''G4NeutronTrackingCut'', [])] REST_Silent []))
     = [G4HadronElasticPhysicsHP, G4NeutronTrackingCut]"
proof -
  let ?cfg = "configSource
       [(''G4NeutronTrackingCut'', []), (''G4EmLivermorePhysics'', []),
        (''G4HadronElasticPhysicsHP'', []), (''G4NeutronTrackingCut'', [])] REST_Silent []"
  have one: "length (found ?cfg emPhysicsLists) \<le> 1"
    by (simp add: found_def emPhysicsLists_def enabled_def configSource_def)
  then have r: "fst (PhysicsList_ctor ?cfg) = Return (resolved ?cfg)"
    by (simp add: PhysicsList_ctor_eq Let_def)
  have "map snd (filter (\<lambda>entry. enabled ?cfg (fst entry)) hadronPhysicsLists)
        = [G4HadronElasticPhysicsHP, G4NeutronTrackingCut]"
    by (simp add: hadronPhysicsLists_def enabled_def configSource_def)
  with hadronic_fixed_order [OF r] r show ?thesis by simp
qed

text \<open>
  Claim C3 as stated fails. Declaring \<open>[A, B, A]\<close> yields \<open>[A, B]\<close>, and declaring
  EmExtra before QGSP_BIC_HP yields QGSP_BIC_HP before EmExtra.
\<close>

theorem hadronic_duplicates_counterexample:
  "map_option fHadronPhys (result (fst (PhysicsList_ctor (configSource
       [(''G4HadronPhysicsQGSP_BIC_HP'', []), (''G4IonBinaryCascadePhysics'', []),
        (''G4HadronPhysicsQGSP_BIC_HP'', [])] REST_Silent []))))
     = Some [G4HadronPhysicsQGSP_BIC_HP, G4IonBinaryCascadePhysics]
   \<and> map_option fHadronPhys (result (fst (PhysicsList_ctor (configSource
       [(''G4HadronPhysicsQGSP_BIC_HP'', []), (''G4IonBinaryCascadePhysics'', []),
        (''G4HadronPhysicsQGSP_BIC_HP'', [])] REST_Silent []))))
     \<noteq> Some [G4HadronPhysicsQGSP_BIC_HP, G4IonBinaryCascadePhysics, G4HadronPhysicsQGSP_BIC_HP]
   \<and> map_option fHadronPhys (result (fst (PhysicsList_ctor (configSource
       [(''G4EmExtraPhysics'', []), (''G4HadronPhysicsQGSP_BIC_HP'', [])] REST_Silent []))))
     = Some [G4HadronPhysicsQGSP_BIC_HP, G4EmExtraPhysics]"
  by code_simp

subsection \<open>The production-cut energy window\<close>

text \<open>
  Claim C4, as the code has it. For every configuration the constructor hands the
  window to the engine's \<open>SetEnergyRange\<close> exactly once, as \<open>(min keV, max keV)\<close>,
  whatever the bounds are; replacing the window by any other bounds changes neither
  whether the constructor returns nor what it writes to the error stream or as warnings.
\<close>

theorem energy_window_unvalidated:
  "filter isSetEnergyRange (snd (PhysicsList_ctor cfg)) =
     [SetEnergyRange (GetMinimumEnergyProductionCuts cfg * keV)
                     (GetMaximumEnergyProductionCuts cfg * keV)]
   \<and> returns (fst (PhysicsList_ctor
         (cfg\<lparr>GetMinimumEnergyProductionCuts := lo, GetMaximumEnergyProductionCuts := hi\<rparr>)))
       = returns (fst (PhysicsList_ctor cfg))
   \<and> diagnostics (snd (PhysicsList_ctor
         (cfg\<lparr>GetMinimumEnergyProductionCuts := lo, GetMaximumEnergyProductionCuts := hi\<rparr>)))
       = diagnostics (snd (PhysicsList_ctor cfg))
   \<and> warnings (snd (PhysicsList_ctor
         (cfg\<lparr>GetMinimumEnergyProductionCuts := lo, GetMaximumEnergyProductionCuts := hi\<rparr>)))
       = warnings (snd (PhysicsList_ctor cfg))"
  by (simp add: PhysicsList_ctor_eq Let_def del: One_nat_def)

text \<open>
  Claim C4 as stated fails. With an inverted window (min 10 keV, max 1 keV) the
  constructor returns, nothing is reported, and the inverted bounds reach the engine as
  they are; with a non-positive window the constructor returns as well.
\<close>

theorem energy_window_counterexample:
  "returns (fst (PhysicsList_ctor
      ((configSource [(''G4EmLivermorePhysics'', [])] REST_Essential [])
         \<lparr>GetMinimumEnergyProductionCuts := 10, GetMaximumEnergyProductionCuts := 1\<rparr>)))
   \<and> snd (PhysicsList_ctor
      ((configSource [(''G4EmLivermorePhysics'', [])] REST_Essential [])
         \<lparr>GetMinimumEnergyProductionCuts := 10, GetMaximumEnergyProductionCuts := 1\<rparr>))
     ! 5 = SetEnergyRange (10 * keV) (1 * keV)
   \<and> diagnostics (snd (PhysicsList_ctor
      ((configSource [(''G4EmLivermorePhysics'', [])] REST_Essential [])
         \<lparr>GetMinimumEnergyProductionCuts := 10, GetMaximumEnergyProductionCuts := 1\<rparr>))) = []
   \<and> returns (fst (PhysicsList_ctor
      ((configSource [(''G4EmLivermorePhysics'', [])] REST_Essential [])
         \<lparr>GetMinimumEnergyProductionCuts := - 5, GetMaximumEnergyProductionCuts := 0\<rparr>)))"
  by code_simp

subsection \<open>Cut assignment\<close>




subsection \<open>The ion sweep\<close>

text \<open>
  Claim C6. Process construction attaches a step limiter to an ion \<open>(Z, A)\<close> exactly
  when \<open>Z\<close> is in \<open>[1, 40]\<close>, \<open>A\<close> is in \<open>[2Z, 3Z]\<close> and the ion's name is in the
  configured ion step list; the limiter is named "ionStep" and the ion is the ground
  state. An ion outside the window gets no limiter, whatever the list holds.
\<close>

theorem ion_sweep_closed:
  "(Ion Z A lvl, tag) \<in> set (stepLimiters (ConstructProcess ext this []))
     \<longleftrightarrow> lvl = 0 \<and> tag = ''ionStep'' \<and> 1 \<le> Z \<and> Z \<le> 40 \<and> 2 * Z \<le> A \<and> A \<le> 3 * Z
           \<and> GetIonName ext Z A 0 \<in> set (GetIonStepList (fRestPhysicsLists this))"
  by (auto simp add: stepLimiters_ConstructProcess set_ionPlan set_fixedPlan inSweep_def)

text \<open>
  The theorem at the list \<open>[C14, C20]\<close>: carbon 14 gets its limiter, carbon 20 (outside
  \<open>[12, 18]\<close>) gets none although its name is in the list.
\<close>

theorem ion_sweep_closed_witness:
  "GetIonName (engine []) 6 14 0 = ''C14''
   \<and> GetIonName (engine []) 6 20 0 = ''C20''
   \<and> (Ion 6 14 0, ''ionStep'') \<in> set (stepLimiters (ConstructProcess (engine [])
         (resolved (configSource [(''G4EmLivermorePhysics'', [])] REST_Silent [''C14'', ''C20''])) []))
   \<and> (Ion 6 20 0, ''ionStep'') \<notin> set (stepLimiters (ConstructProcess (engine [])
         (resolved (configSource [(''G4EmLivermorePhysics'', [])] REST_Silent [''C14'', ''C20''])) []))"
proof -
  let ?cfg = "configSource [(''G4EmLivermorePhysics'', [])] REST_Silent [''C14'', ''C20'']"
  have n14: "GetIonName (engine []) 6 14 0 = ''C14''"
    and n20: "GetIonName (engine []) 6 20 0 = ''C20''"
    by code_simp+
  have l: "GetIonStepList (fRestPhysicsLists (resolved ?cfg)) = [''C14'', ''C20'']"
    by (simp add: resolved_def configSource_def)
  have a: "(Ion 6 14 0, ''ionStep'') \<in> set (stepLimiters (ConstructProcess (engine []) (resolved ?cfg) []))"
    using ion_sweep_closed [of 6 14 0 "''ionStep''" "engine []" "resolved ?cfg"]
    by (simp add: n14 l)
  have b: "(Ion 6 20 0, ''ionStep'') \<notin> set (stepLimiters (ConstructProcess (engine []) (resolved ?cfg) []))"
    using ion_sweep_closed [of 6 20 0 "''ionStep''" "engine []" "resolved ?cfg"]
    by simp
  from n14 n20 a b show ?thesis by blast
qed

subsection \<open>The order of the step-limiter plan\<close>

text \<open>
  Claim C7. The step limiters attached by process construction are the fixed-name
  entries followed by the ion entries. The fixed-name entries are a function of the
  engine's particles alone: \<open>(e-, e-Step)\<close>, \<open>(e+, e+Step)\<close>, \<open>(mu-, mu-Step)\<close>,
  \<open>(mu+, mu+Step)\<close> for each of these species the particle iterator yields, whatever
  the configuration. The entries of the ion loop are all ion entries and are ordered by
  increasing Z, then increasing A.
\<close>

theorem step_limiter_plan_order:
  "stepLimiters (ConstructProcess ext this []) =
       fixedPlan (theParticleIterator ext)
       @ stepLimiters (ionStepLoop ext (GetIonStepList (fRestPhysicsLists this)))
   \<and> ((Particle n, tag) \<in> set (fixedPlan (theParticleIterator ext))
        \<longleftrightarrow> n \<in> set (theParticleIterator ext) \<and> (n, tag) \<in> set fixedNameRules)
   \<and> list_all isIonRule (stepLimiters (ionStepLoop ext names))
   \<and> sorted_wrt ionBefore (stepLimiters (ionStepLoop ext names))"
  by (simp add: stepLimiters_ConstructProcess stepLimiters_ionStepLoop set_fixedPlan
      list_all_ionPlan sorted_ionPlan)

text \<open>The theorem at an engine with six particles and the ion step list \<open>[O16, C14, C12]\<close>.\<close>

theorem step_limiter_plan_order_witness:
  "stepLimiters (ConstructProcess (engine [''gamma'', ''e-'', ''mu+'', ''e+'', ''proton'', ''mu-''])
       (resolved (configSource [(''G4EmLivermorePhysics'', [])] REST_Silent [''O16'', ''C14'', ''C12''])) [])
     = [(Particle ''e-'', ''e-Step''), (Particle ''mu+'', ''mu+Step''),
        (Particle ''e+'', ''e+Step''), (Particle ''mu-'', ''mu-Step''),
        (Ion 6 12 0, ''ionStep''), (Ion 6 14 0, ''ionStep''), (Ion 8 16 0, ''ionStep'')]"
proof -
  let ?ext = "engine [''gamma'', ''e-'', ''mu+'', ''e+'', ''proton'', ''mu-'']"
  let ?cfg = "configSource [(''G4EmLivermorePhysics'', [])] REST_Silent [''O16'', ''C14'', ''C12'']"
  have f: "fixedPlan (theParticleIterator ?ext) =
      [(Particle ''e-'', ''e-Step''), (Particle ''mu+'', ''mu+Step''),
       (Particle ''e+'', ''e+Step''), (Particle ''mu-'', ''mu-Step'')]"
    by code_simp
  have i: "stepLimiters (ionStepLoop ?ext (GetIonStepList (fRestPhysicsLists (resolved ?cfg)))) =
      [(Ion 6 12 0, ''ionStep''), (Ion 6 14 0, ''ionStep''), (Ion 8 16 0, ''ionStep'')]"
    by code_simp
  show ?thesis
    using step_limiter_plan_order [of ?ext "resolved ?cfg", THEN conjunct1]
    by (simp only: f i append.simps)
qed

subsection \<open>The radioactive-decay options\<close>

text \<open>
  Claim C8 fails on the code: the block is guarded by the integer answer of
  \<open>FindPhysicsList\<close> used as a condition, not by \<open>>= 0\<close> as every other test. With
  no \<open>G4RadioactiveDecay\<close> entry the answer is \<open>-1\<close> and the decay process is created
  and its time threshold set; with the entry declared first the answer is \<open>0\<close> and
  neither the threshold nor the configured flags are applied; with the entry declared
  anywhere else they are applied as the claim says.
\<close>

theorem radioactive_decay_guard:
  "\<not> enabled (configSource [(''G4EmLivermorePhysics'', [])] REST_Silent []) ''G4RadioactiveDecay''
   \<and> filter isRadioactiveDecayCall
        (snd (Initialize (engine [])
           (configSource [(''G4EmLivermorePhysics'', [])] REST_Silent [])))
      = [New_G4RadioactiveDecay, SetThresholdForVeryLongDecayTime nanosecond]
   \<and> enabled (configSource [(''G4RadioactiveDecay'', [(''ICM'', ''true''), (''ARM'', ''false'')]),
                           (''G4EmLivermorePhysics'', [])] REST_Silent []) ''G4RadioactiveDecay''
   \<and> filter isRadioactiveDecayCall
        (snd (Initialize (engine [])
           (configSource [(''G4RadioactiveDecay'', [(''ICM'', ''true''), (''ARM'', ''false'')]),
                          (''G4EmLivermorePhysics'', [])] REST_Silent [])))
      = []
   \<and> filter isRadioactiveDecayCall
        (snd (Initialize (engine [])
           (configSource [(''G4EmLivermorePhysics'', []),
                          (''G4RadioactiveDecay'', [(''ICM'', ''true''), (''ARM'', ''false'')])]
              REST_Silent [])))
      = [New_G4RadioactiveDecay, SetThresholdForVeryLongDecayTime nanosecond,
         SetICM True, SetARM False]"
  by code_simp

subsection \<open>The two construction phases\<close>

text \<open>
  Claim C9. Particle construction visits the decay module, the electromagnetic module,
  the radioactive-decay module and the hadronic modules, in this order, each when
  present. Process construction starts with the transport setup, then constructs the
  electromagnetic module and sends its option commands, then the decay module, the
  radioactive-decay module and the hadronic modules; no step limiter is attached before
  that point and no module is constructed after it. The option commands end with pixe,
  fluo and auger set from the module's options, with the defaults "false", "true" and
  "true", each read on its own.
\<close>

theorem two_phase_order:
  "ConstructParticle this tr =
       tr @ GeantinoDefinition
          # map ConstructParticleOf
              (present (fDecPhysicsList this) @ present (fEmPhysicsList this)
               @ present (fRadDecPhysicsList this) @ fHadronPhys this)
   \<and> ConstructProcess ext this tr =
       tr @ AddTransportation # constructEm ext this []
          @ map ConstructProcessOf
              (present (fDecPhysicsList this) @ present (fRadDecPhysicsList this) @ fHadronPhys this)
          @ radioactiveDecayBlock this []
          @ concat (map stepLimiterFor (theParticleIterator ext))
          @ ionStepLoop ext (GetIonStepList (fRestPhysicsLists this))
   \<and> stepLimiters (AddTransportation # constructEm ext this []
          @ map ConstructProcessOf
              (present (fDecPhysicsList this) @ present (fRadDecPhysicsList this) @ fHadronPhys this)
          @ radioactiveDecayBlock this []) = []
   \<and> filter isModuleConstruction (radioactiveDecayBlock this []
          @ concat (map stepLimiterFor (theParticleIterator ext))
          @ ionStepLoop ext (GetIonStepList (fRestPhysicsLists this))) = []
   \<and> filter isModuleConstruction (constructEm ext this []) =
       (case fEmPhysicsList this of
          None \<Rightarrow> []
        | Some m \<Rightarrow>
            ConstructProcessOf m # EmConfig_AddModels
            # map ApplyCommand
                [''/process/em/fluo true'', ''/process/em/auger true'', ''/process/em/pixe true'',
                 ''/process/em/pixe '' @ boolString (StringToBool ext
                    (GetPhysicsListOptionValue (fRestPhysicsLists this) (fEmPhysicsListName this)
                       ''pixe'' ''false'')),
                 ''/process/em/fluo '' @ boolString (StringToBool ext
                    (GetPhysicsListOptionValue (fRestPhysicsLists this) (fEmPhysicsListName this)
                       ''fluo'' ''true'')),
                 ''/process/em/auger '' @ boolString (StringToBool ext
                    (GetPhysicsListOptionValue (fRestPhysicsLists this) (fEmPhysicsListName this)
                       ''auger'' ''true''))])
   \<and> (StringToBool ext ''true'' \<and> \<not> StringToBool ext ''false''
        \<and> GetPhysicsListOptionValue (fRestPhysicsLists this) (fEmPhysicsListName this)
              ''pixe'' ''false'' = ''false''
        \<and> GetPhysicsListOptionValue (fRestPhysicsLists this) (fEmPhysicsListName this)
              ''fluo'' ''true'' = ''true''
        \<and> GetPhysicsListOptionValue (fRestPhysicsLists this) (fEmPhysicsListName this)
              ''auger'' ''true'' = ''true''
        \<longrightarrow> drop 3 (commands (constructEm ext this [])) =
             (case fEmPhysicsList this of
                None \<Rightarrow> []
              | Some m \<Rightarrow> [''/process/em/pixe false'', ''/process/em/fluo true'',
                            ''/process/em/auger true'']))"
  apply (intro conjI)
       apply (rule ConstructParticle_eq)
      apply (rule ConstructProcess_eq)
     apply simp
    apply simp
   apply (simp add: constructEm_def emOption_def Let_def split: option.splits)
  apply (simp add: constructEm_def emOption_def Let_def boolString_def split: option.splits)
  done

text \<open>The theorem at a configuration with five modules and no option set.\<close>

theorem two_phase_order_witness:
  "StringToBool (engine [''e-'']) ''true'' \<and> \<not> StringToBool (engine [''e-'']) ''false''
   \<and> ConstructParticle (resolved (configSource
         [(''G4HadronElasticPhysicsHP'', []), (''G4EmPenelopePhysics'', []),
          (''G4RadioactiveDecayPhysics'', []), (''G4HadronPhysicsQGSP_BIC_HP'', []),
          (''G4DecayPhysics'', [])] REST_Silent [])) []
     = [GeantinoDefinition, ConstructParticleOf G4DecayPhysics,
        ConstructParticleOf G4EmPenelopePhysics, ConstructParticleOf G4RadioactiveDecayPhysics,
        ConstructParticleOf G4HadronPhysicsQGSP_BIC_HP, ConstructParticleOf G4HadronElasticPhysicsHP]
   \<and> drop 3 (commands (constructEm (engine [''e-'']) (resolved (configSource
         [(''G4HadronElasticPhysicsHP'', []), (''G4EmPenelopePhysics'', []),
          (''G4RadioactiveDecayPhysics'', []), (''G4HadronPhysicsQGSP_BIC_HP'', []),
          (''G4DecayPhysics'', [])] REST_Silent [])) []))
     = [''/process/em/pixe false'', ''/process/em/fluo true'', ''/process/em/auger true'']"
proof -
  let ?ext = "engine [''e-'']"
  let ?cfg = "configSource
         [(''G4HadronElasticPhysicsHP'', []), (''G4EmPenelopePhysics'', []),
          (''G4RadioactiveDecayPhysics'', []), (''G4HadronPhysicsQGSP_BIC_HP'', []),
          (''G4DecayPhysics'', [])] REST_Silent []"
  have t: "StringToBool ?ext ''true''" and f: "\<not> StringToBool ?ext ''false''"
    by code_simp+
  have slots: "fDecPhysicsList (resolved ?cfg) = Some G4DecayPhysics"
    "fEmPhysicsList (resolved ?cfg) = Some G4EmPenelopePhysics"
    "fRadDecPhysicsList (resolved ?cfg) = Some G4RadioactiveDecayPhysics"
    "fHadronPhys (resolved ?cfg) = [G4HadronPhysicsQGSP_BIC_HP, G4HadronElasticPhysicsHP]"
    by code_simp+
  have opts: "GetPhysicsListOptionValue (fRestPhysicsLists (resolved ?cfg))
        (fEmPhysicsListName (resolved ?cfg)) ''pixe'' ''false'' = ''false''"
    "GetPhysicsListOptionValue (fRestPhysicsLists (resolved ?cfg))
        (fEmPhysicsListName (resolved ?cfg)) ''fluo'' ''true'' = ''true''"
    "GetPhysicsListOptionValue (fRestPhysicsLists (resolved ?cfg))
        (fEmPhysicsListName (resolved ?cfg)) ''auger'' ''true'' = ''true''"
    by code_simp+
  note T = two_phase_order [of "resolved ?cfg" "[]" ?ext]
  have p1: "ConstructParticle (resolved ?cfg) [] =
      [GeantinoDefinition, ConstructParticleOf G4DecayPhysics,
        ConstructParticleOf G4EmPenelopePhysics, ConstructParticleOf G4RadioactiveDecayPhysics,
        ConstructParticleOf G4HadronPhysicsQGSP_BIC_HP, ConstructParticleOf G4HadronElasticPhysicsHP]"
    using T [THEN conjunct1] by (simp add: slots present_def)
  have p2: "drop 3 (commands (constructEm ?ext (resolved ?cfg) [])) =
      [''/process/em/pixe false'', ''/process/em/fluo true'', ''/process/em/auger true'']"
    using T [THEN conjunct2, THEN conjunct2, THEN conjunct2, THEN conjunct2, THEN conjunct2]
      t f opts
    by (simp add: slots)
  from t f p1 p2 show ?thesis by blast
qed

subsection \<open>Repeated names in the ion step list\<close>

text \<open>
  Claim C10. For a pair \<open>(Z, A)\<close> of the sweep, the number of "ionStep" limiters
  attached to the ion is the number of elements of the ion step list that equal the
  ion's name; outside the sweep it is 0.
\<close>

theorem ion_step_multiplicity:
  "count_list (stepLimiters (ConstructProcess ext this [])) (Ion Z A 0, ''ionStep'') =
     (if 1 \<le> Z \<and> Z \<le> 40 \<and> 2 * Z \<le> A \<and> A \<le> 3 * Z
      then count_list (GetIonStepList (fRestPhysicsLists this)) (GetIonName ext Z A 0)
      else 0)"
  by (simp add: stepLimiters_ConstructProcess count_fixedPlan_ion count_ionPlan inSweep_def)

text \<open>The theorem at the list \<open>[C14, O16, C14]\<close>: two limiters for carbon 14.\<close>

theorem ion_step_multiplicity_witness:
  "count_list (stepLimiters (ConstructProcess (engine [''e-''])
       (resolved (configSource [] REST_Silent [''C14'', ''O16'', ''C14''])) []))
     (Ion 6 14 0, ''ionStep'') = 2
   \<and> count_list [''C14'', ''O16'', ''C14''] (GetIonName (engine [''e-'']) 6 14 0) = 2"
proof -
  let ?cfg = "configSource [] REST_Silent [''C14'', ''O16'', ''C14'']"
  have n14: "GetIonName (engine [''e-'']) 6 14 0 = ''C14''"
    by code_simp
  have l: "GetIonStepList (fRestPhysicsLists (resolved ?cfg)) = [''C14'', ''O16'', ''C14'']"
    by (simp add: resolved_def configSource_def)
  show ?thesis
    using ion_step_multiplicity [of "engine [''e-'']" "resolved ?cfg" 6 14]
    by (simp add: n14 l)
qed

end
